theory Spec2Isabelle
  imports Complex_Main
begin

text \<open>
  A shallow embedding of the traffic dashboard's utilities: the timestamp normalizer
  \<^verbatim>\<open>parseISTTimestamp\<close> and the relative-time formatter \<^verbatim>\<open>getHoursAgo\<close> of
  \<^verbatim>\<open>src/lib/timeUtils.ts\<close>, the grid constants of \<^verbatim>\<open>src/lib/constants.ts\<close>, and the
  cell-centre mapping of the specification. The definitions come first, the properties
  after them.
\<close>

section \<open>Numbers, Dates and the host environment\<close>

text \<open>
  The TypeScript of \<^verbatim>\<open>src/lib/timeUtils.ts\<close> computes with ECMAScript Numbers and
  \<^verbatim>\<open>Date\<close> objects. Every Number that occurs there is either a time value (an integral
  number of milliseconds since 1970-01-01T00:00:00Z), a difference or floored quotient of
  time values, or \<^verbatim>\<open>NaN\<close>. A Number is therefore modelled as \<open>int option\<close>, with
  \<open>None\<close> for \<^verbatim>\<open>NaN\<close>. The model is exact for the IEEE doubles of the source as long as
  every integer stays below \<open>2 ^ 53\<close> in magnitude. Time values are at most
  \<open>8.64 * 10 ^ 15\<close> and so are exact, and so is a time value less \<open>19800000\<close>. A
  difference \<^verbatim>\<open>now - date\<close> of two time values can reach \<open>2 ^ 53\<close>, where the doubles
  round and the integers do not: the properties of \<open>getHoursAgo\<close> below are stated for
  differences below \<open>2 ^ 53\<close> in magnitude, where the floored quotients by 60000,
  3600000 and 24 of the doubles are those of the integers.
\<close>

type_synonym number = "int option"

text \<open>A \<^verbatim>\<open>Date\<close> object holds one time value; \<^verbatim>\<open>Invalid Date\<close> holds \<^verbatim>\<open>NaN\<close>.\<close>

datatype jsDate = InvalidDate | ValidDate int

fun getTime :: "jsDate \<Rightarrow> number" where
  "getTime InvalidDate = None"
| "getTime (ValidDate t) = Some t"

text \<open>
  What the code reads from its host: the clock (\<^verbatim>\<open>new Date()\<close>), the offset of the host's
  local time zone (ECMAScript's \<^verbatim>\<open>LocalTZA(t, false)\<close>, in milliseconds, for a local time
  value \<open>t\<close>), and what \<^verbatim>\<open>Date.parse\<close> makes of a string that is not in the ECMAScript
  Date Time String Format, which the language leaves to the implementation.
\<close>

record env =
  now :: int
  localTZA :: "int \<Rightarrow> int"
  fallbackParse :: "string \<Rightarrow> number"

subsection \<open>Number operations\<close>

definition numSub :: "number \<Rightarrow> number \<Rightarrow> number" where
  "numSub a b = (case a of None \<Rightarrow> None | Some x \<Rightarrow> (case b of None \<Rightarrow> None | Some y \<Rightarrow> Some (x - y)))"

text \<open>\<^verbatim>\<open>Math.floor(a / d)\<close> for a positive integer constant \<open>d\<close>.\<close>

definition floorDiv :: "number \<Rightarrow> int \<Rightarrow> number" where
  "floorDiv a d = (case a of None \<Rightarrow> None | Some x \<Rightarrow> Some (x div d))"

text \<open>\<^verbatim>\<open>a % d\<close>: the remainder takes the sign of the dividend.\<close>

definition numRem :: "number \<Rightarrow> int \<Rightarrow> number" where
  "numRem a d = (case a of None \<Rightarrow> None
                 | Some x \<Rightarrow> Some (if 0 \<le> x then x mod d else - ((- x) mod d)))"

text \<open>\<^verbatim>\<open>a === k\<close> and \<^verbatim>\<open>a < k\<close>: every comparison with \<^verbatim>\<open>NaN\<close> is false.\<close>

definition numEq :: "number \<Rightarrow> int \<Rightarrow> bool" where
  "numEq a k = (case a of None \<Rightarrow> False | Some x \<Rightarrow> x = k)"

definition numLt :: "number \<Rightarrow> int \<Rightarrow> bool" where
  "numLt a k = (case a of None \<Rightarrow> False | Some x \<Rightarrow> x < k)"

subsection \<open>Number to string\<close>

definition digitChar :: "nat \<Rightarrow> char" where
  "digitChar d = ''0123456789'' ! d"

fun showNat :: "nat \<Rightarrow> string" where
  "showNat n = (if n < 10 then [digitChar n] else showNat (n div 10) @ [digitChar (n mod 10)])"

declare showNat.simps [simp del]

definition showInt :: "int \<Rightarrow> string" where
  "showInt i = (if i < 0 then CHR ''-'' # showNat (nat (- i)) else showNat (nat i))"

text \<open>The string a template literal \<^verbatim>\<open>${a}\<close> inserts for an integral Number or \<^verbatim>\<open>NaN\<close>.\<close>

definition toString :: "number \<Rightarrow> string" where
  "toString a = (case a of None \<Rightarrow> ''NaN'' | Some x \<Rightarrow> showInt x)"

section \<open>getHoursAgo\<close>

text \<open>
  \<^verbatim>\<open>src/lib/timeUtils.ts\<close>, lines 49 to 67. The function reads the clock itself
  (\<^verbatim>\<open>const now = new Date()\<close>); the clock is the \<open>now\<close> of the environment.
\<close>

definition getHoursAgo :: "env \<Rightarrow> jsDate \<Rightarrow> string" where
  "getHoursAgo e date =
    (let diffInMs = numSub (Some (now e)) (getTime date);
         diffInMinutes = floorDiv diffInMs (1000 * 60);
         diffInHours = floorDiv diffInMs (1000 * 60 * 60)
     in if numEq diffInMinutes 0 then ''Just now''
        else if numLt diffInMinutes 60
          then toString diffInMinutes @ '' minute'' @ (if numEq diffInMinutes 1 then '''' else ''s'') @ '' ago''
        else if numLt diffInHours 24
          then (let remainingMinutes = numRem diffInMinutes 60
                in if numEq remainingMinutes 0
                   then toString diffInHours @ '' hour'' @ (if numEq diffInHours 1 then '''' else ''s'') @ '' ago''
                   else toString diffInHours @ ''h '' @ toString remainingMinutes @ ''m ago'')
        else (let diffInDays = floorDiv diffInHours 24
              in if numEq diffInDays 1 then ''1 day ago''
                 else toString diffInDays @ '' days ago''))"

text \<open>
  The phrase as the specification words it, from the whole minutes \<open>m\<close> and whole hours
  \<open>h\<close> of a non-negative duration. It is compared with the code below.
\<close>

definition relativeAgo_spec :: "int \<Rightarrow> int \<Rightarrow> string" where
  "relativeAgo_spec m h =
    (if m = 0 then ''Just now''
     else if m < 60 then showInt m @ (if m = 1 then '' minute ago'' else '' minutes ago'')
     else if m < 1440 then
       (if m mod 60 = 0 then showInt h @ (if h = 1 then '' hour ago'' else '' hours ago'')
        else showInt h @ ''h '' @ showInt (m mod 60) @ ''m ago'')
     else showInt (h div 24) @ (if h div 24 = 1 then '' day ago'' else '' days ago''))"

section \<open>ECMAScript dates\<close>

text \<open>
  The \<^verbatim>\<open>Date\<close> constructor is the host's, not the repository's. It is modelled after
  the ECMAScript specification: the day and time arithmetic (\<^verbatim>\<open>MakeDay\<close>,
  \<^verbatim>\<open>MakeTime\<close>, \<^verbatim>\<open>MakeDate\<close>, \<^verbatim>\<open>TimeClip\<close>) and the Date Time String Format
  \<^verbatim>\<open>YYYY-MM-DDTHH:mm:ss.sssZ\<close> with its shorter forms. Where the specification leaves the
  result to the implementation, the model asks the environment.
\<close>

subsection \<open>Day and time arithmetic\<close>

definition DayFromYear :: "int \<Rightarrow> int" where
  "DayFromYear y = 365 * (y - 1970) + (y - 1969) div 4 - (y - 1901) div 100 + (y - 1601) div 400"

definition InLeapYear :: "int \<Rightarrow> bool" where
  "InLeapYear y = (if y mod 4 \<noteq> 0 then False else if y mod 100 \<noteq> 0 then True else y mod 400 = 0)"

text \<open>Days of the year before the month with index \<open>mn\<close> (January is 0).\<close>

definition daysBeforeMonth :: "int \<Rightarrow> nat \<Rightarrow> int" where
  "daysBeforeMonth y mn =
     [0, 31, 59, 90, 120, 151, 181, 212, 243, 273, 304, 334] ! mn
       + (if 2 \<le> mn \<and> InLeapYear y then 1 else 0)"

definition MakeDay :: "int \<Rightarrow> int \<Rightarrow> int \<Rightarrow> int" where
  "MakeDay year month date =
     (let ym = year + month div 12; mn = nat (month mod 12)
      in DayFromYear ym + daysBeforeMonth ym mn + date - 1)"

definition MakeTime :: "int \<Rightarrow> int \<Rightarrow> int \<Rightarrow> int \<Rightarrow> int" where
  "MakeTime hour minute sec ms = hour * 3600000 + minute * 60000 + sec * 1000 + ms"

definition MakeDate :: "int \<Rightarrow> int \<Rightarrow> int" where
  "MakeDate day time = day * 86400000 + time"

definition TimeClip :: "int \<Rightarrow> number" where
  "TimeClip t = (if \<bar>t\<bar> > 8640000000000000 then None else Some t)"

definition Day :: "int \<Rightarrow> int" where
  "Day t = t div 86400000"

definition HourFromTime :: "int \<Rightarrow> int" where
  "HourFromTime t = (t div 3600000) mod 24"

definition MinFromTime :: "int \<Rightarrow> int" where
  "MinFromTime t = (t div 60000) mod 60"

subsection \<open>The Date Time String Format\<close>

definition digitVal :: "char \<Rightarrow> nat option" where
  "digitVal c = (let n = (of_char c :: nat) in if 48 \<le> n \<and> n \<le> 57 then Some (n - 48) else None)"

text \<open>Exactly \<open>n\<close> decimal digits from the front of the string, and the rest.\<close>

fun readDigits :: "nat \<Rightarrow> string \<Rightarrow> nat \<Rightarrow> (nat \<times> string) option" where
  "readDigits 0 s acc = Some (acc, s)"
| "readDigits (Suc n) [] acc = None"
| "readDigits (Suc n) (c # cs) acc =
     (case digitVal c of None \<Rightarrow> None | Some d \<Rightarrow> readDigits n cs (10 * acc + d))"

fun expect :: "char \<Rightarrow> string \<Rightarrow> string option" where
  "expect c [] = None"
| "expect c (x # xs) = (if x = c then Some xs else None)"

text \<open>
  The time zone designator: absent, \<^verbatim>\<open>Z\<close>, or \<^verbatim>\<open>+HH:mm\<close> / \<^verbatim>\<open>-HH:mm\<close> (the flag is
  true for the minus sign).
\<close>

datatype zone = NoZone | Zulu | Offset bool nat nat

record dateTimeFields =
  fYear :: int
  fMonth :: nat
  fDay :: nat
  fHasTime :: bool
  fHour :: nat
  fMinute :: nat
  fSecond :: nat
  fMs :: nat
  fZone :: zone

text \<open>A four-digit year, or an expanded year of six digits with its sign (\<^verbatim>\<open>-000000\<close> is not one).\<close>

definition parseYear :: "string \<Rightarrow> (int \<times> string) option" where
  "parseYear s =
     (case s of
        [] \<Rightarrow> None
      | c # cs \<Rightarrow>
          if c = CHR ''+'' then map_option (\<lambda>(v, r). (int v, r)) (readDigits 6 cs 0)
          else if c = CHR ''-'' then
            Option.bind (readDigits 6 cs 0) (\<lambda>(v, r). if v = 0 then None else Some (- int v, r))
          else map_option (\<lambda>(v, r). (int v, r)) (readDigits 4 s 0))"

definition parseZone :: "string \<Rightarrow> zone option" where
  "parseZone s =
     (case s of
        [] \<Rightarrow> Some NoZone
      | c # cs \<Rightarrow>
          if c = CHR ''Z'' then (if cs = [] then Some Zulu else None)
          else if c = CHR ''+'' \<or> c = CHR ''-'' then
            Option.bind (readDigits 2 cs 0) (\<lambda>(hh, r1).
            Option.bind (expect CHR '':'' r1) (\<lambda>r2.
            Option.bind (readDigits 2 r2 0) (\<lambda>(mm, r3).
              if r3 = [] then Some (Offset (c = CHR ''-'') hh mm) else None)))
          else None)"

text \<open>\<^verbatim>\<open>HH:mm\<close>, \<^verbatim>\<open>HH:mm:ss\<close> or \<^verbatim>\<open>HH:mm:ss.sss\<close>, then the time zone designator.\<close>

definition parseTime :: "string \<Rightarrow> (nat \<times> nat \<times> nat \<times> nat \<times> zone) option" where
  "parseTime s =
     Option.bind (readDigits 2 s 0) (\<lambda>(hh, r1).
     Option.bind (expect CHR '':'' r1) (\<lambda>r2.
     Option.bind (readDigits 2 r2 0) (\<lambda>(mi, r3).
       (case expect CHR '':'' r3 of
          None \<Rightarrow> map_option (\<lambda>z. (hh, mi, 0, 0, z)) (parseZone r3)
        | Some r4 \<Rightarrow>
            Option.bind (readDigits 2 r4 0) (\<lambda>(ss, r5).
              (case expect CHR ''.'' r5 of
                 None \<Rightarrow> map_option (\<lambda>z. (hh, mi, ss, 0, z)) (parseZone r5)
               | Some r6 \<Rightarrow>
                   Option.bind (readDigits 3 r6 0) (\<lambda>(ms, r7).
                     map_option (\<lambda>z. (hh, mi, ss, ms, z)) (parseZone r7))))))))"

text \<open>What follows the date: nothing (a date-only form) or \<^verbatim>\<open>T\<close> and a time.\<close>

definition afterDate :: "int \<Rightarrow> nat \<Rightarrow> nat \<Rightarrow> string \<Rightarrow> dateTimeFields option" where
  "afterDate y mo d r =
     (if r = [] then
        Some \<lparr>fYear = y, fMonth = mo, fDay = d, fHasTime = False,
              fHour = 0, fMinute = 0, fSecond = 0, fMs = 0, fZone = NoZone\<rparr>
      else
        Option.bind (expect CHR ''T'' r) (\<lambda>r'.
          map_option (\<lambda>(hh, mi, ss, ms, z).
              \<lparr>fYear = y, fMonth = mo, fDay = d, fHasTime = True,
               fHour = hh, fMinute = mi, fSecond = ss, fMs = ms, fZone = z\<rparr>)
            (parseTime r')))"

text \<open>
  The fields of a string in the format (\<^verbatim>\<open>YYYY\<close>, \<^verbatim>\<open>YYYY-MM\<close> or \<^verbatim>\<open>YYYY-MM-DD\<close>,
  alone or followed by \<^verbatim>\<open>T\<close> and a time); \<open>None\<close> for a string that is not in the format.
\<close>

definition parseDateTimeString :: "string \<Rightarrow> dateTimeFields option" where
  "parseDateTimeString s =
     Option.bind (parseYear s) (\<lambda>(y, r1).
       (case expect CHR ''-'' r1 of
          None \<Rightarrow> afterDate y 1 1 r1
        | Some r2 \<Rightarrow>
            Option.bind (readDigits 2 r2 0) (\<lambda>(mo, r3).
              (case expect CHR ''-'' r3 of
                 None \<Rightarrow> afterDate y mo 1 r3
               | Some r4 \<Rightarrow> Option.bind (readDigits 2 r4 0) (\<lambda>(d, r5). afterDate y mo d r5)))))"

text \<open>
  The bounds of the format's elements: month 01 to 12, day 01 to 31, hour 00 to 24
  (24 only as \<^verbatim>\<open>24:00:00.000\<close>), minute and second 00 to 59, milliseconds of three
  digits, and for an offset hours 00 to 23 and minutes 00 to 59.
\<close>

definition zoneInBounds :: "zone \<Rightarrow> bool" where
  "zoneInBounds z = (case z of Offset neg hh mm \<Rightarrow> hh \<le> 23 \<and> mm \<le> 59 | _ \<Rightarrow> True)"

definition fieldsInBounds :: "dateTimeFields \<Rightarrow> bool" where
  "fieldsInBounds f =
     (1 \<le> fMonth f \<and> fMonth f \<le> 12 \<and> 1 \<le> fDay f \<and> fDay f \<le> 31
      \<and> fHour f \<le> 24 \<and> fMinute f \<le> 59 \<and> fSecond f \<le> 59 \<and> fMs f \<le> 999
      \<and> (if fHour f = 24 then fMinute f = 0 \<and> fSecond f = 0 \<and> fMs f = 0 else True)
      \<and> zoneInBounds (fZone f))"

text \<open>
  Whether the month has the day. Engines differ on a day such as February 30 (one
  carries it into March, another returns \<^verbatim>\<open>NaN\<close>), so such a string is left to the
  implementation, like a string that is not in the format.
\<close>

definition DaysInMonth :: "int \<Rightarrow> nat \<Rightarrow> nat" where
  "DaysInMonth y mo =
     [31, if InLeapYear y then 29 else 28, 31, 30, 31, 30, 31, 31, 30, 31, 30, 31] ! (mo - 1)"

definition dateExists :: "dateTimeFields \<Rightarrow> bool" where
  "dateExists f = (fDay f \<le> DaysInMonth (fYear f) (fMonth f))"

text \<open>Fields that every engine reads alike: each element within bounds, and a day of the calendar.\<close>

definition validFields :: "dateTimeFields \<Rightarrow> bool" where
  "validFields f = (fieldsInBounds f \<and> dateExists f)"

text \<open>The fields as a time value, read as if they were UTC.\<close>

definition fieldsTime :: "dateTimeFields \<Rightarrow> int" where
  "fieldsTime f =
     MakeDate (MakeDay (fYear f) (int (fMonth f) - 1) (int (fDay f)))
              (MakeTime (int (fHour f)) (int (fMinute f)) (int (fSecond f)) (int (fMs f)))"

definition offsetMs :: "bool \<Rightarrow> nat \<Rightarrow> nat \<Rightarrow> int" where
  "offsetMs neg hh mm = (if neg then - 1 else 1) * (int hh * 3600000 + int mm * 60000)"

text \<open>
  \<^verbatim>\<open>Date.parse\<close>. A string in the format with an element out of bounds is \<^verbatim>\<open>NaN\<close>. With
  a designator the fields are UTC (\<^verbatim>\<open>Z\<close>) or offset from it; without one, a date-only
  form is UTC and a date-time form is local time of the host. A string that is not in
  the format, or names a day its month does not have, is left to the implementation.
\<close>

definition DateParse :: "env \<Rightarrow> string \<Rightarrow> number" where
  "DateParse e s =
     (case parseDateTimeString s of
        None \<Rightarrow> (case fallbackParse e s of None \<Rightarrow> None | Some t \<Rightarrow> TimeClip t)
      | Some f \<Rightarrow>
          if \<not> fieldsInBounds f then None
          else if \<not> dateExists f then
            (case fallbackParse e s of None \<Rightarrow> None | Some t \<Rightarrow> TimeClip t)
          else
            (let t = fieldsTime f
             in case fZone f of
                  Zulu \<Rightarrow> TimeClip t
                | Offset neg hh mm \<Rightarrow> TimeClip (t - offsetMs neg hh mm)
                | NoZone \<Rightarrow> if fHasTime f then TimeClip (t - localTZA e t) else TimeClip t))"

subsection \<open>The Date constructor\<close>

text \<open>\<^verbatim>\<open>new Date()\<close>, \<^verbatim>\<open>new Date(string)\<close> and \<^verbatim>\<open>new Date(number)\<close>. None of them throws.\<close>

definition newDateNow :: "env \<Rightarrow> jsDate" where
  "newDateNow e = ValidDate (now e)"

definition newDateString :: "env \<Rightarrow> string \<Rightarrow> jsDate" where
  "newDateString e s = (case DateParse e s of None \<Rightarrow> InvalidDate | Some t \<Rightarrow> ValidDate t)"

definition newDateNumber :: "number \<Rightarrow> jsDate" where
  "newDateNumber n =
     (case n of
        None \<Rightarrow> InvalidDate
      | Some t \<Rightarrow> (case TimeClip t of None \<Rightarrow> InvalidDate | Some t' \<Rightarrow> ValidDate t'))"

section \<open>parseISTTimestamp\<close>

text \<open>
  \<^verbatim>\<open>src/lib/timeUtils.ts\<close>, lines 1 to 47. The string methods are used with one-character
  arguments only: \<^verbatim>\<open>includes("T")\<close>, \<^verbatim>\<open>endsWith("Z")\<close>, \<^verbatim>\<open>slice(0, -1)\<close> (the string
  without its last character) and \<^verbatim>\<open>replace(" ", "T")\<close> (the first blank only).
\<close>

definition str_includes :: "string \<Rightarrow> char \<Rightarrow> bool" where
  "str_includes s c = (c \<in> set s)"

definition endsWith :: "string \<Rightarrow> char \<Rightarrow> bool" where
  "endsWith s c = (s \<noteq> [] \<and> last s = c)"

definition slice_0_minus1 :: "string \<Rightarrow> string" where
  "slice_0_minus1 s = butlast s"

fun replaceFirst :: "char \<Rightarrow> char \<Rightarrow> string \<Rightarrow> string" where
  "replaceFirst a b [] = []"
| "replaceFirst a b (c # cs) = (if c = a then b # cs else c # replaceFirst a b cs)"

text \<open>\<^verbatim>\<open>const istOffset = 5.5 * 60 * 60 * 1000\<close>, in milliseconds.\<close>

definition istOffset :: int where
  "istOffset = 19800000"

text \<open>
  The body of the \<^verbatim>\<open>try\<close> block: \<open>Inr\<close> is the Date it returns, \<open>Inl\<close> an exception
  thrown inside it. No operation of the block throws for a string argument, so every
  branch is an \<open>Inr\<close>.
\<close>

datatype thrown = Thrown

definition tryBlock :: "env \<Rightarrow> string \<Rightarrow> thrown + jsDate" where
  "tryBlock e timestamp =
     (let date =
        (if str_includes timestamp CHR ''T'' then
           (if endsWith timestamp CHR ''Z''
            then newDateString e (slice_0_minus1 timestamp)
            else newDateString e timestamp)
         else newDateString e (replaceFirst CHR '' '' CHR ''T'' timestamp))
      in if endsWith timestamp CHR ''Z'' \<or> str_includes timestamp CHR ''T'' then
           (if endsWith timestamp CHR ''Z'' then Inr date
            else Inr (newDateNumber (numSub (getTime date) (Some istOffset))))
         else Inr date)"

text \<open>
  The result is the returned Date and the lines written with \<^verbatim>\<open>console.warn\<close>. A
  \<^verbatim>\<open>null\<close> and an empty string are both falsy.
\<close>

definition parseISTTimestamp :: "env \<Rightarrow> string option \<Rightarrow> jsDate \<times> string list" where
  "parseISTTimestamp e timestamp =
     (case timestamp of
        None \<Rightarrow> (newDateNow e, [])
      | Some ts \<Rightarrow>
          if ts = [] then (newDateNow e, [])
          else (case tryBlock e ts of
                  Inr date \<Rightarrow> (date, [])
                | Inl err \<Rightarrow> (newDateNow e, [''Invalid timestamp format: '' @ ts])))"

text \<open>
  The wall clock a Date shows in a zone \<open>offset\<close> milliseconds east of UTC: the day
  number, the hour and the minute of the shifted time value.
\<close>

definition wallClock :: "int \<Rightarrow> jsDate \<Rightarrow> (int \<times> int \<times> int) option" where
  "wallClock offset d =
     (case d of
        InvalidDate \<Rightarrow> None
      | ValidDate t \<Rightarrow> Some (Day (t + offset), HourFromTime (t + offset), MinFromTime (t + offset)))"

text \<open>
  Shape (2) as the specification words it: the string read as UTC, shifted by the offset
  of the civil zone. It is compared with the code below.
\<close>

definition utcShifted_spec :: "string \<Rightarrow> jsDate" where
  "utcShifted_spec s =
     (case parseDateTimeString s of
        None \<Rightarrow> InvalidDate
      | Some f \<Rightarrow> newDateNumber (Some (fieldsTime f - istOffset)))"

text \<open>
  A host with a clock reading \<open>t\<close>, a local zone at the fixed offset \<open>tza\<close> and a
  \<^verbatim>\<open>Date.parse\<close> that recognises nothing outside the format.
\<close>

definition fixedZoneHost :: "int \<Rightarrow> int \<Rightarrow> env" where
  "fixedZoneHost tza t = \<lparr>now = t, localTZA = (\<lambda>_. tza), fallbackParse = (\<lambda>_. None)\<rparr>"

section \<open>Constants\<close>

text \<open>\<^verbatim>\<open>GRID_DIMENSIONS\<close> of \<^verbatim>\<open>src/lib/constants.ts\<close>, lines 14 to 19.\<close>

record gridDimensionsConst =
  ROWS :: nat
  COLS :: nat
  ROW_HEIGHT :: real
  ASPECT_RATIO :: real

definition GRID_DIMENSIONS :: gridDimensionsConst where
  "GRID_DIMENSIONS = \<lparr>ROWS = 24, COLS = 16, ROW_HEIGHT = 53.3, ASPECT_RATIO = 12750 / 10920\<rparr>"

section \<open>The grid coordinate mapper\<close>

text \<open>
  Modelled from the spec: \<^verbatim>\<open>src/lib/coordinateUtils.ts\<close> (\<^verbatim>\<open>getCellCenterCoordinates\<close>,
  \<^verbatim>\<open>JAIPUR_BOUNDARIES\<close>, \<^verbatim>\<open>GRID_METERS\<close>) is imported by
  \<^verbatim>\<open>tests/coordinateUtils.test.ts\<close> and is not among the sources. The data model and
  \<open>cellCenter\<close> below follow sections 3 and 4.1 of the specification, over the reals.
\<close>

record GeoCoordinate =
  latitude :: real
  longitude :: real

record GeoBoundary =
  northwest :: GeoCoordinate
  southeast :: GeoCoordinate

record GridDimensions =
  columns :: int
  rows :: int

text \<open>
  Modelled from the spec: step size along longitude = (southeast.longitude -
  northwest.longitude) / columns; step size along latitude = (northwest.latitude -
  southeast.latitude) / rows.
\<close>

definition lngStep :: "GeoBoundary \<Rightarrow> GridDimensions \<Rightarrow> real" where
  "lngStep b g = (longitude (southeast b) - longitude (northwest b)) / of_int (columns g)"

definition latStep :: "GeoBoundary \<Rightarrow> GridDimensions \<Rightarrow> real" where
  "latStep b g = (latitude (northwest b) - latitude (southeast b)) / of_int (rows g)"

text \<open>
  Modelled from the spec: latitude = northwest.latitude - latStep * (y + 0.5);
  longitude = northwest.longitude + lngStep * (x + 0.5).
\<close>

definition cellCenter :: "GeoBoundary \<Rightarrow> GridDimensions \<Rightarrow> int \<Rightarrow> int \<Rightarrow> GeoCoordinate" where
  "cellCenter b g x y =
     \<lparr>latitude = latitude (northwest b) - latStep b g * (of_int y + 0.5),
      longitude = longitude (northwest b) + lngStep b g * (of_int x + 0.5)\<rparr>"

text \<open>The literal scenario: NW = (26.99, 75.65), SE = (26.78, 75.92), 15 columns, 21 rows.\<close>

definition scenarioBoundary :: GeoBoundary where
  "scenarioBoundary =
     \<lparr>northwest = \<lparr>latitude = 26.99, longitude = 75.65\<rparr>,
      southeast = \<lparr>latitude = 26.78, longitude = 75.92\<rparr>\<rparr>"

definition scenarioGrid :: GridDimensions where
  "scenarioGrid = \<lparr>columns = 15, rows = 21\<rparr>"

section \<open>The relative-time phrase\<close>

lemma showInt_1: "showInt 1 = ''1''"
  by code_simp

lemma showInt_neg: "i < 0 \<Longrightarrow> showInt i = CHR ''-'' # showNat (nat (- i))"
  by (simp add: showInt_def)

lemma div_min_hours: "(x::int) div 3600000 = x div 60000 div 60"
  by (simp add: div_mult2_eq [symmetric])

lemma div_60_lt_24: "(m::int) div 60 < 24 \<longleftrightarrow> m < 1440"
  by presburger

lemma hours_lt_24: "(x::int) div 3600000 < 24 \<longleftrightarrow> x div 60000 < 1440"
  unfolding div_min_hours by (rule div_60_lt_24)

text \<open>The code on a valid Date, with the Number operations evaluated.\<close>

lemma getHoursAgo_unfold:
  assumes "m = (now e - past) div 60000" and "h = (now e - past) div 3600000"
  shows "getHoursAgo e (ValidDate past) =
    (if m = 0 then ''Just now''
     else if m < 60 then showInt m @ '' minute'' @ (if m = 1 then '''' else ''s'') @ '' ago''
     else if h < 24 then
       (if (if 0 \<le> m then m mod 60 else - ((- m) mod 60)) = 0
        then showInt h @ '' hour'' @ (if h = 1 then '''' else ''s'') @ '' ago''
        else showInt h @ ''h '' @ showInt (if 0 \<le> m then m mod 60 else - ((- m) mod 60)) @ ''m ago'')
     else (if h div 24 = 1 then ''1 day ago'' else showInt (h div 24) @ '' days ago''))"
  unfolding getHoursAgo_def Let_def numSub_def floorDiv_def numEq_def
        numLt_def numRem_def toString_def getTime.simps option.case
  using assms by (simp only: mult_numeral_left_semiring_numeral numeral_times_numeral arith_simps)

text \<open>
  C5. For a Date that is not later than the clock, and less than \<open>2 ^ 53\<close> milliseconds
  before it (where the Numbers of the source are exact), \<open>getHoursAgo\<close> returns the phrase of
  the specification for \<open>m = floor ((now - past) / 60000)\<close> whole minutes and
  \<open>h = floor ((now - past) / 3600000)\<close> whole hours: "Just now" for \<open>m = 0\<close>; "m minute(s)
  ago" (singular exactly for \<open>m = 1\<close>) for \<open>1 \<le> m < 60\<close>; "h hour(s) ago" for
  \<open>60 \<le> m < 1440\<close> with \<open>m\<close> a multiple of 60, and "{h}h {m mod 60}m ago" otherwise;
  "{h div 24} day(s) ago" for \<open>m \<ge> 1440\<close>.
\<close>

theorem getHoursAgo_phrase:
  assumes "past \<le> now e" and "\<bar>now e - past\<bar> < 2 ^ 53"
  shows "getHoursAgo e (ValidDate past) =
         relativeAgo_spec ((now e - past) div 60000) ((now e - past) div 3600000)"
proof -
  define m where "m = (now e - past) div 60000"
  define h where "h = (now e - past) div 3600000"
  have m0: "0 \<le> m" using assms(1) by (simp add: m_def)
  have hm: "h < 24 \<longleftrightarrow> m < 1440" unfolding m_def h_def by (rule hours_lt_24)
  have "getHoursAgo e (ValidDate past) = relativeAgo_spec m h"
    unfolding getHoursAgo_unfold [OF m_def h_def] relativeAgo_spec_def hm
    using m0 by (simp add: showInt_1)
  then show ?thesis by (simp only: m_def h_def)
qed

theorem getHoursAgo_phrase_witness:
  "1767345016000 \<le> now (fixedZoneHost istOffset 1767345016000)
   \<and> \<bar>now (fixedZoneHost istOffset 1767345016000) - 1767172216000\<bar> < 2 ^ 53
   \<and> getHoursAgo (fixedZoneHost istOffset 1767345016000) (ValidDate 1767345016000) = ''Just now''
   \<and> getHoursAgo (fixedZoneHost istOffset 1767345016000) (ValidDate 1767344956000) = ''1 minute ago''
   \<and> getHoursAgo (fixedZoneHost istOffset 1767345016000) (ValidDate 1767340516000) = ''1h 15m ago''
   \<and> getHoursAgo (fixedZoneHost istOffset 1767345016000) (ValidDate 1767334216000) = ''3 hours ago''
   \<and> getHoursAgo (fixedZoneHost istOffset 1767345016000) (ValidDate 1767172216000) = ''2 days ago''"
proof -
  let ?e = "fixedZoneHost istOffset 1767345016000"
  have n: "now ?e = 1767345016000" by (simp add: fixedZoneHost_def)
  have le0: "1767345016000 \<le> now ?e" and le1: "1767344956000 \<le> now ?e"
    and le2: "1767340516000 \<le> now ?e" and le3: "1767334216000 \<le> now ?e"
    and le4: "1767172216000 \<le> now ?e"
    by (simp_all add: n)
  have b0: "\<bar>now ?e - 1767345016000\<bar> < 2 ^ 53" and b1: "\<bar>now ?e - 1767344956000\<bar> < 2 ^ 53"
    and b2: "\<bar>now ?e - 1767340516000\<bar> < 2 ^ 53" and b3: "\<bar>now ?e - 1767334216000\<bar> < 2 ^ 53"
    and b4: "\<bar>now ?e - 1767172216000\<bar> < 2 ^ 53"
    by (simp_all add: n)
  have s0: "relativeAgo_spec ((1767345016000 - 1767345016000) div 60000)
              ((1767345016000 - 1767345016000) div 3600000) = ''Just now''"
    and s1: "relativeAgo_spec ((1767345016000 - 1767344956000) div 60000)
              ((1767345016000 - 1767344956000) div 3600000) = ''1 minute ago''"
    and s2: "relativeAgo_spec ((1767345016000 - 1767340516000) div 60000)
              ((1767345016000 - 1767340516000) div 3600000) = ''1h 15m ago''"
    and s3: "relativeAgo_spec ((1767345016000 - 1767334216000) div 60000)
              ((1767345016000 - 1767334216000) div 3600000) = ''3 hours ago''"
    and s4: "relativeAgo_spec ((1767345016000 - 1767172216000) div 60000)
              ((1767345016000 - 1767172216000) div 3600000) = ''2 days ago''"
    by code_simp+
  have "getHoursAgo ?e (ValidDate 1767345016000) = ''Just now''"
    and "getHoursAgo ?e (ValidDate 1767344956000) = ''1 minute ago''"
    and "getHoursAgo ?e (ValidDate 1767340516000) = ''1h 15m ago''"
    and "getHoursAgo ?e (ValidDate 1767334216000) = ''3 hours ago''"
    and "getHoursAgo ?e (ValidDate 1767172216000) = ''2 days ago''"
    unfolding getHoursAgo_phrase [OF le0 b0] getHoursAgo_phrase [OF le1 b1]
      getHoursAgo_phrase [OF le2 b2] getHoursAgo_phrase [OF le3 b3]
      getHoursAgo_phrase [OF le4 b4] n
    by (rule s0 s1 s2 s3 s4)+
  with le0 b4 show ?thesis by blast
qed

text \<open>
  C10. For a Date strictly later than the clock, and less than \<open>2 ^ 53\<close> milliseconds
  after it (where the Numbers of the source are exact), the whole minutes
  \<open>m = floor ((now - past) / 60000)\<close> are negative, and \<open>getHoursAgo\<close> returns
  "{m} minutes ago" from the branch for less than an hour: the phrase starts with the
  minus sign of \<open>m\<close> and is never "Just now".
\<close>

theorem getHoursAgo_future:
  assumes "now e < past" and "\<bar>now e - past\<bar> < 2 ^ 53"
  shows "(now e - past) div 60000 < 0
       \<and> getHoursAgo e (ValidDate past) = showInt ((now e - past) div 60000) @ '' minutes ago''
       \<and> hd (getHoursAgo e (ValidDate past)) = CHR ''-''
       \<and> getHoursAgo e (ValidDate past) \<noteq> ''Just now''"
proof -
  define m where "m = (now e - past) div 60000"
  define h where "h = (now e - past) div 3600000"
  have neg: "m < 0" using assms(1) by (simp add: m_def div_neg_pos_less0)
  have eq: "getHoursAgo e (ValidDate past) = showInt m @ '' minutes ago''"
    unfolding getHoursAgo_unfold [OF m_def h_def] using neg by simp
  have hd: "hd (getHoursAgo e (ValidDate past)) = CHR ''-''"
    unfolding eq showInt_neg [OF neg] by simp
  have "hd ''Just now'' \<noteq> CHR ''-''" by simp
  with hd have ne: "getHoursAgo e (ValidDate past) \<noteq> ''Just now''" by metis
  from neg eq hd ne show ?thesis unfolding m_def by blast
qed

theorem getHoursAgo_future_witness:
  "now (fixedZoneHost istOffset 1767345016000) < 1767345316000
   \<and> \<bar>now (fixedZoneHost istOffset 1767345016000) - 1767345316000\<bar> < 2 ^ 53
   \<and> getHoursAgo (fixedZoneHost istOffset 1767345016000) (ValidDate 1767345316000) = ''-5 minutes ago''
   \<and> now (fixedZoneHost istOffset 1767345016000) < 1767345016001
   \<and> getHoursAgo (fixedZoneHost istOffset 1767345016000) (ValidDate 1767345016001) = ''-1 minutes ago''"
proof -
  let ?e = "fixedZoneHost istOffset 1767345016000"
  have n: "now ?e = 1767345016000" by (simp add: fixedZoneHost_def)
  have lt5: "now ?e < 1767345316000" and lt1: "now ?e < 1767345016001" by (simp_all add: n)
  have b5: "\<bar>now ?e - 1767345316000\<bar> < 2 ^ 53" and b1: "\<bar>now ?e - 1767345016001\<bar> < 2 ^ 53"
    by (simp_all add: n)
  have s5: "showInt ((1767345016000 - 1767345316000) div 60000) @ '' minutes ago'' = ''-5 minutes ago''"
    and s1: "showInt ((1767345016000 - 1767345016001) div 60000) @ '' minutes ago'' = ''-1 minutes ago''"
    by code_simp+
  from getHoursAgo_future [OF lt5 b5]
  have r5: "getHoursAgo ?e (ValidDate 1767345316000) = ''-5 minutes ago''"
    unfolding n s5 by blast
  from getHoursAgo_future [OF lt1 b1]
  have r1: "getHoursAgo ?e (ValidDate 1767345016001) = ''-1 minutes ago''"
    unfolding n s1 by blast
  from lt5 b5 r5 lt1 r1 show ?thesis by blast
qed

section \<open>The timestamp normalizer\<close>

subsection \<open>The two branches for a string with the separator\<close>

text \<open>
  The \<^verbatim>\<open>try\<close> block always returns, so the \<^verbatim>\<open>catch\<close> branch is dead: nothing is ever
  warned. A missing or empty timestamp gives the reading of the clock.
\<close>

lemma tryBlock_never_throws: "\<exists>d. tryBlock e ts = Inr d"
  by (simp add: tryBlock_def Let_def)

lemma parseISTTimestamp_never_warns: "snd (parseISTTimestamp e ts) = []"
proof (cases ts)
  case None
  then show ?thesis by (simp add: parseISTTimestamp_def)
next
  case (Some s)
  obtain d where "tryBlock e s = Inr d" using tryBlock_never_throws by blast
  with Some show ?thesis by (simp add: parseISTTimestamp_def)
qed

lemma parseISTTimestamp_missing:
  "parseISTTimestamp e None = (ValidDate (now e), [])"
  "parseISTTimestamp e (Some []) = (ValidDate (now e), [])"
  by (simp_all add: parseISTTimestamp_def newDateNow_def)

lemma parseISTTimestamp_marker:
  assumes "CHR ''T'' \<in> set s" and "endsWith s CHR ''Z''"
  shows "parseISTTimestamp e (Some s) = (newDateString e (butlast s), [])"
proof -
  have "s \<noteq> []" using assms(1) by auto
  then show ?thesis
    using assms by (simp add: parseISTTimestamp_def tryBlock_def str_includes_def slice_0_minus1_def)
qed

lemma parseISTTimestamp_no_marker:
  assumes "CHR ''T'' \<in> set s" and "\<not> endsWith s CHR ''Z''"
  shows "parseISTTimestamp e (Some s) =
         (newDateNumber (numSub (getTime (newDateString e s)) (Some istOffset)), [])"
proof -
  have "s \<noteq> []" using assms(1) by auto
  then show ?thesis
    using assms by (simp add: parseISTTimestamp_def tryBlock_def str_includes_def)
qed

lemma endsWith_snoc: "endsWith (w @ [c]) c"
  by (simp add: endsWith_def)

lemma parseISTTimestamp_append_marker:
  assumes "CHR ''T'' \<in> set w"
  shows "parseISTTimestamp e (Some (w @ ''Z'')) = (newDateString e w, [])"
proof -
  have "CHR ''T'' \<in> set (w @ ''Z'')" using assms by simp
  from parseISTTimestamp_marker [OF this endsWith_snoc] show ?thesis by simp
qed

subsection \<open>What the Date constructor makes of a string in the format\<close>

lemma DateParse_local:
  assumes "parseDateTimeString w = Some f" and "validFields f" and "fHasTime f"
    and "fZone f = NoZone"
  shows "DateParse e w = TimeClip (fieldsTime f - localTZA e (fieldsTime f))"
  using assms by (simp add: DateParse_def Let_def validFields_def)

lemma DateParse_offset:
  assumes "parseDateTimeString w = Some f" and "validFields f"
    and "fZone f = Offset neg hh mm"
  shows "DateParse e w = TimeClip (fieldsTime f - offsetMs neg hh mm)"
  using assms by (simp add: DateParse_def Let_def validFields_def)

lemma DateParse_out_of_bounds:
  assumes "parseDateTimeString w = Some f" and "\<not> fieldsInBounds f"
  shows "DateParse e w = None"
  using assms by (simp add: DateParse_def)

lemma newDateNumber_TimeClip:
  "(case TimeClip x of None \<Rightarrow> InvalidDate | Some t \<Rightarrow> ValidDate t) = newDateNumber (Some x)"
  by (simp add: newDateNumber_def)

lemma newDateNumber_in_range:
  assumes "- 8640000000000000 \<le> x" and "x \<le> 8640000000000000"
  shows "newDateNumber (Some x) = ValidDate x"
  using assms by (simp add: newDateNumber_def TimeClip_def)

lemma TimeClip_Some: "TimeClip x = Some t \<Longrightarrow> t = x \<and> - 8640000000000000 \<le> x \<and> x \<le> 8640000000000000"
  by (simp add: TimeClip_def abs_if split: if_splits)

lemma newDateString_valid: "newDateString e s = ValidDate t \<longleftrightarrow> DateParse e s = Some t"
  by (simp add: newDateString_def split: option.splits)

lemma DateParse_range:
  "DateParse e s = Some t \<Longrightarrow> - 8640000000000000 \<le> t \<and> t \<le> 8640000000000000"
  by (auto simp: DateParse_def Let_def dest: TimeClip_Some split: option.splits if_splits zone.splits)

lemma shifted_valid:
  assumes "newDateString e s = ValidDate t" and "- 8640000000000000 \<le> t - 19800000"
  shows "newDateNumber (numSub (getTime (newDateString e s)) (Some istOffset)) = ValidDate (t - 19800000)"
proof -
  from assms(1) have "DateParse e s = Some t" by (simp add: newDateString_valid)
  then have "t \<le> 8640000000000000" using DateParse_range by blast
  then have "t - 19800000 \<le> 8640000000000000" by simp
  from newDateNumber_in_range [OF assms(2) this] show ?thesis
    by (simp add: assms(1) numSub_def istOffset_def)
qed

subsection \<open>The wall clock of a time value made from fields\<close>

lemma Day_MakeDate:
  assumes "0 \<le> tm" and "tm < 86400000"
  shows "Day (MakeDate d tm) = d"
  using assms by (simp add: Day_def MakeDate_def)

lemma MakeTime_within_day:
  assumes "h \<le> 23" "mi \<le> 59" "sc \<le> 59" "ms \<le> 999"
  shows "0 \<le> MakeTime (int h) (int mi) (int sc) (int ms)"
    and "MakeTime (int h) (int mi) (int sc) (int ms) < 86400000"
  using assms by (simp_all add: MakeTime_def)

lemma Hour_MakeDate:
  assumes "h \<le> 23" "mi \<le> 59" "sc \<le> 59" "ms \<le> 999"
  shows "HourFromTime (MakeDate d (MakeTime (int h) (int mi) (int sc) (int ms))) = int h"
proof -
  define r where "r = int mi * 60000 + int sc * 1000 + int ms"
  have r: "0 \<le> r" "r < 3600000" using assms by (simp_all add: r_def)
  have "MakeDate d (MakeTime (int h) (int mi) (int sc) (int ms)) = (d * 24 + int h) * 3600000 + r"
    by (simp add: MakeDate_def MakeTime_def r_def algebra_simps)
  moreover have "((d * 24 + int h) * 3600000 + r) div 3600000 = d * 24 + int h"
    using r by simp
  moreover have "(d * 24 + int h) mod 24 = int h" using assms(1) by simp
  ultimately show ?thesis by (simp add: HourFromTime_def)
qed

lemma Min_MakeDate:
  assumes "h \<le> 23" "mi \<le> 59" "sc \<le> 59" "ms \<le> 999"
  shows "MinFromTime (MakeDate d (MakeTime (int h) (int mi) (int sc) (int ms))) = int mi"
proof -
  define r where "r = int sc * 1000 + int ms"
  have r: "0 \<le> r" "r < 60000" using assms by (simp_all add: r_def)
  have "MakeDate d (MakeTime (int h) (int mi) (int sc) (int ms))
          = ((d * 24 + int h) * 60 + int mi) * 60000 + r"
    by (simp add: MakeDate_def MakeTime_def r_def algebra_simps)
  moreover have "(((d * 24 + int h) * 60 + int mi) * 60000 + r) div 60000
          = (d * 24 + int h) * 60 + int mi"
    using r by simp
  moreover have "((d * 24 + int h) * 60 + int mi) mod 60 = int mi"
  proof -
    have "((d * 24 + int h) * 60 + int mi) mod 60 = int mi mod 60"
      by (simp only: mod_mult_self3)
    also have "\<dots> = int mi" using assms(2) by simp
    finally show ?thesis .
  qed
  ultimately show ?thesis by (simp add: MinFromTime_def)
qed

text \<open>
  A Date made from fields less an offset shows those fields on the wall clock of a zone
  at that offset.
\<close>

lemma wallClock_fields:
  assumes "validFields f" and "fHour f \<le> 23"
    and "\<bar>fieldsTime f - off\<bar> \<le> 8640000000000000"
  shows "wallClock off (newDateNumber (Some (fieldsTime f - off))) =
         Some (MakeDay (fYear f) (int (fMonth f) - 1) (int (fDay f)), int (fHour f), int (fMinute f))"
proof -
  from assms(1) have b: "fMinute f \<le> 59" "fSecond f \<le> 59" "fMs f \<le> 999"
    by (simp_all add: validFields_def fieldsInBounds_def)
  have v: "newDateNumber (Some (fieldsTime f - off)) = ValidDate (fieldsTime f - off)"
    using assms(3) by (simp add: newDateNumber_def TimeClip_def)
  have w: "wallClock off (ValidDate (fieldsTime f - off)) =
           Some (Day (fieldsTime f), HourFromTime (fieldsTime f), MinFromTime (fieldsTime f))"
    by (simp add: wallClock_def)
  have d: "Day (fieldsTime f) = MakeDay (fYear f) (int (fMonth f) - 1) (int (fDay f))"
    unfolding fieldsTime_def
    using MakeTime_within_day [OF assms(2) b] by (rule Day_MakeDate)
  have h: "HourFromTime (fieldsTime f) = int (fHour f)"
    unfolding fieldsTime_def by (rule Hour_MakeDate [OF assms(2) b])
  have m: "MinFromTime (fieldsTime f) = int (fMinute f)"
    unfolding fieldsTime_def by (rule Min_MakeDate [OF assms(2) b])
  show ?thesis by (simp only: v w d h m)
qed

subsection \<open>The trailing marker and the zone of the host\<close>

text \<open>
  With the marker, the fields of a date-time form without a designator are offset by the
  zone of the host: the result depends on \<open>localTZA e\<close>.
\<close>

lemma literal_T: "CHR ''T'' \<in> set ''2026-01-02T09:10:16.000''"
  by simp

lemma literal_split: "''2026-01-02T09:10:16.000Z'' = ''2026-01-02T09:10:16.000'' @ ''Z''"
  by simp

lemma literal_fields:
  "parseDateTimeString ''2026-01-02T09:10:16.000'' =
     Some \<lparr>fYear = 2026, fMonth = 1, fDay = 2, fHasTime = True, fHour = 9,
           fMinute = 10, fSecond = 16, fMs = 0, fZone = NoZone\<rparr>"
  by code_simp

lemma literal_time:
  "fieldsTime \<lparr>fYear = 2026, fMonth = 1, fDay = 2, fHasTime = True, fHour = 9,
           fMinute = 10, fSecond = 16, fMs = 0, fZone = NoZone\<rparr> = 1767345016000"
  by code_simp

lemma literal_bounds:
  "validFields \<lparr>fYear = 2026, fMonth = 1, fDay = 2, fHasTime = True, fHour = 9,
           fMinute = 10, fSecond = 16, fMs = 0, fZone = NoZone\<rparr>"
  by code_simp

lemma marker_host_local:
  assumes "CHR ''T'' \<in> set w" and "parseDateTimeString w = Some f" and "validFields f"
    and "fHasTime f" and "fZone f = NoZone"
  shows "parseISTTimestamp e (Some (w @ ''Z'')) =
         (newDateNumber (Some (fieldsTime f - localTZA e (fieldsTime f))), [])"
proof -
  have "newDateString e w = newDateNumber (Some (fieldsTime f - localTZA e (fieldsTime f)))"
    unfolding newDateString_def DateParse_local [OF assms(2-5)] by (rule newDateNumber_TimeClip)
  with parseISTTimestamp_append_marker [OF assms(1)] show ?thesis by simp
qed

lemma literal_result:
  "parseISTTimestamp e (Some ''2026-01-02T09:10:16.000Z'') =
     (newDateNumber (Some (1767345016000 - localTZA e 1767345016000)), [])"
proof -
  let ?f = "\<lparr>fYear = 2026, fMonth = 1, fDay = 2, fHasTime = True, fHour = 9,
           fMinute = 10, fSecond = 16, fMs = 0, fZone = NoZone\<rparr>"
  have "fHasTime ?f" and "fZone ?f = NoZone" by simp_all
  from marker_host_local [OF literal_T literal_fields literal_bounds this, of e]
  show ?thesis unfolding literal_time literal_split [symmetric] .
qed

text \<open>
  C1. The branch for a trailing \<^verbatim>\<open>Z\<close> hands the stripped string to the Date
  constructor, which reads its fields in the zone of the host and not in the fixed +05:30
  zone the comments of the code name. On a host at UTC,
  \<^verbatim>\<open>2026-01-02T09:10:16.000Z\<close> gives the instant 1767345016000, which reads 14:40 on
  2026-01-02 in the +05:30 zone and not 09:10; the reading is 09:10 on a host at +05:30.
\<close>

theorem parseISTTimestamp_Z_on_utc_host:
  "parseISTTimestamp (fixedZoneHost 0 0) (Some ''2026-01-02T09:10:16.000Z'')
     = (ValidDate 1767345016000, [])
   \<and> wallClock istOffset (fst (parseISTTimestamp (fixedZoneHost 0 0) (Some ''2026-01-02T09:10:16.000Z'')))
     = Some (MakeDay 2026 0 2, 14, 40)
   \<and> wallClock istOffset (fst (parseISTTimestamp (fixedZoneHost 0 0) (Some ''2026-01-02T09:10:16.000Z'')))
     \<noteq> Some (MakeDay 2026 0 2, 9, 10)
   \<and> wallClock istOffset
        (fst (parseISTTimestamp (fixedZoneHost istOffset 0) (Some ''2026-01-02T09:10:16.000Z'')))
     = Some (MakeDay 2026 0 2, 9, 10)"
  by code_simp

subsection \<open>The branch without the marker\<close>

text \<open>
  Without the marker, the fields of a date-time form without a designator are again
  read in the zone of the host, and 19 800 000 ms are subtracted from that instant
  whatever the zone was.
\<close>

lemma no_marker_host_local:
  assumes "CHR ''T'' \<in> set s" and "\<not> endsWith s CHR ''Z''"
    and "parseDateTimeString s = Some f" and "validFields f"
    and "fHasTime f" and "fZone f = NoZone"
  shows "parseISTTimestamp e (Some s) =
           (newDateNumber (numSub (TimeClip (fieldsTime f - localTZA e (fieldsTime f)))
                                  (Some 19800000)), [])"
proof -
  have g: "getTime (newDateString e s) = TimeClip (fieldsTime f - localTZA e (fieldsTime f))"
    unfolding newDateString_def DateParse_local [OF assms(3-6)]
    by (simp split: option.splits)
  show ?thesis
    unfolding parseISTTimestamp_no_marker [OF assms(1,2)] g istOffset_def ..
qed

text \<open>
  C2. The comments of the code subtract 5.5 hours from a date that was parsed as UTC; the
  code subtracts them from a date the Date constructor parsed in the zone of the host.
  On a host at +05:30, \<^verbatim>\<open>2026-01-02T15:30:00.000\<close> gives the instant 1767328200000,
  which reads 10:00 on 2026-01-02 in the +05:30 zone: eleven hours before the string
  read as UTC, where the string read as UTC and shifted by 5.5 hours is the instant
  1767348000000. The two agree on a host at UTC.
\<close>

theorem parseISTTimestamp_no_marker_on_ist_host:
  "parseISTTimestamp (fixedZoneHost istOffset 0) (Some ''2026-01-02T15:30:00.000'')
     = (ValidDate 1767328200000, [])
   \<and> utcShifted_spec ''2026-01-02T15:30:00.000'' = ValidDate 1767348000000
   \<and> fst (parseISTTimestamp (fixedZoneHost istOffset 0) (Some ''2026-01-02T15:30:00.000''))
     \<noteq> utcShifted_spec ''2026-01-02T15:30:00.000''
   \<and> wallClock istOffset
        (fst (parseISTTimestamp (fixedZoneHost istOffset 0) (Some ''2026-01-02T15:30:00.000'')))
     = Some (MakeDay 2026 0 2, 10, 0)
   \<and> parseISTTimestamp (fixedZoneHost 0 0) (Some ''2026-01-02T15:30:00.000'')
     = (ValidDate 1767348000000, [])"
  by code_simp

subsection \<open>With and without the marker\<close>

text \<open>
  C4. For a string \<open>s\<close> with the separator and without a trailing \<^verbatim>\<open>Z\<close> that the Date
  constructor reads as the instant \<open>t\<close>, the parse of \<open>s @ ''Z''\<close> is \<open>t\<close> and the parse
  of \<open>s\<close> is the instant 19 800 000 ms (5.5 hours) earlier, whenever that instant is not
  below the least time value of a Date.
\<close>

theorem parseISTTimestamp_marker_asymmetry:
  assumes "CHR ''T'' \<in> set s" and "\<not> endsWith s CHR ''Z''"
    and "newDateString e s = ValidDate t" and "- 8640000000000000 \<le> t - 19800000"
  shows "parseISTTimestamp e (Some (s @ ''Z'')) = (ValidDate t, [])
       \<and> parseISTTimestamp e (Some s) = (ValidDate (t - 19800000), [])
       \<and> t - (t - 19800000) = 5 * 3600000 + 30 * 60000"
proof -
  have a: "parseISTTimestamp e (Some (s @ ''Z'')) = (ValidDate t, [])"
    unfolding parseISTTimestamp_append_marker [OF assms(1)] assms(3) ..
  have b: "parseISTTimestamp e (Some s) = (ValidDate (t - 19800000), [])"
    unfolding parseISTTimestamp_no_marker [OF assms(1,2)] shifted_valid [OF assms(3,4)] ..
  from a b show ?thesis by simp
qed

theorem parseISTTimestamp_marker_asymmetry_witness:
  "CHR ''T'' \<in> set ''2026-01-02T09:10:16.000''
   \<and> \<not> endsWith ''2026-01-02T09:10:16.000'' CHR ''Z''
   \<and> newDateString (fixedZoneHost istOffset 0) ''2026-01-02T09:10:16.000'' = ValidDate 1767325216000
   \<and> - 8640000000000000 \<le> (1767325216000::int) - 19800000
   \<and> parseISTTimestamp (fixedZoneHost istOffset 0) (Some ''2026-01-02T09:10:16.000Z'')
        = (ValidDate 1767325216000, [])
   \<and> parseISTTimestamp (fixedZoneHost istOffset 0) (Some ''2026-01-02T09:10:16.000'')
        = (ValidDate 1767305416000, [])"
proof -
  let ?s = "''2026-01-02T09:10:16.000''"
  let ?e = "fixedZoneHost istOffset 0"
  have Z: "\<not> endsWith ?s CHR ''Z''" by (simp add: endsWith_def)
  have n: "newDateString ?e ?s = ValidDate 1767325216000" by code_simp
  have r: "- 8640000000000000 \<le> (1767325216000::int) - 19800000" by simp
  from parseISTTimestamp_marker_asymmetry [OF literal_T Z n r]
  have "parseISTTimestamp ?e (Some ''2026-01-02T09:10:16.000Z'') = (ValidDate 1767325216000, [])"
    and "parseISTTimestamp ?e (Some ?s) = (ValidDate 1767305416000, [])"
    by simp_all
  with literal_T Z n r show ?thesis by blast
qed

text \<open>
  C9. A string with the separator, without a trailing \<^verbatim>\<open>Z\<close> and with an explicit offset
  denotes the instant \<open>t\<close> of its fields less its offset, whatever the host. The branch
  without the marker still subtracts: the result is the instant 19 800 000 ms (5.5 hours)
  before \<open>t\<close>, whenever that instant is not below the least time value of a Date.
\<close>

theorem parseISTTimestamp_offset_still_shifted:
  assumes "CHR ''T'' \<in> set s" and "\<not> endsWith s CHR ''Z''"
    and "parseDateTimeString s = Some f" and "validFields f"
    and "fZone f = Offset neg hh mm"
    and "TimeClip (fieldsTime f - offsetMs neg hh mm) = Some t"
    and "- 8640000000000000 \<le> t - 19800000"
  shows "newDateString e s = ValidDate t
       \<and> parseISTTimestamp e (Some s) = (ValidDate (t - 19800000), [])"
proof -
  have n: "newDateString e s = ValidDate t"
    unfolding newDateString_def DateParse_offset [OF assms(3-5)] assms(6) by simp
  have "parseISTTimestamp e (Some s) = (ValidDate (t - 19800000), [])"
    unfolding parseISTTimestamp_no_marker [OF assms(1,2)] shifted_valid [OF n assms(7)] ..
  with n show ?thesis by simp
qed

theorem parseISTTimestamp_offset_still_shifted_witness:
  "CHR ''T'' \<in> set ''2024-01-15T14:30:00+05:30''
   \<and> \<not> endsWith ''2024-01-15T14:30:00+05:30'' CHR ''Z''
   \<and> parseDateTimeString ''2024-01-15T14:30:00+05:30'' =
        Some \<lparr>fYear = 2024, fMonth = 1, fDay = 15, fHasTime = True, fHour = 14,
              fMinute = 30, fSecond = 0, fMs = 0, fZone = Offset False 5 30\<rparr>
   \<and> validFields \<lparr>fYear = 2024, fMonth = 1, fDay = 15, fHasTime = True, fHour = 14,
              fMinute = 30, fSecond = 0, fMs = 0, fZone = Offset False 5 30\<rparr>
   \<and> TimeClip (fieldsTime \<lparr>fYear = 2024, fMonth = 1, fDay = 15, fHasTime = True, fHour = 14,
              fMinute = 30, fSecond = 0, fMs = 0, fZone = Offset False 5 30\<rparr> - offsetMs False 5 30)
        = Some 1705309200000
   \<and> - 8640000000000000 \<le> (1705309200000::int) - 19800000
   \<and> parseISTTimestamp (fixedZoneHost istOffset 0) (Some ''2024-01-15T14:30:00+05:30'')
        = (ValidDate 1705289400000, [])
   \<and> wallClock istOffset (ValidDate 1705289400000) = Some (MakeDay 2024 0 15, 9, 0)"
proof -
  let ?s = "''2024-01-15T14:30:00+05:30''"
  let ?f = "\<lparr>fYear = 2024, fMonth = 1, fDay = 15, fHasTime = True, fHour = 14,
              fMinute = 30, fSecond = 0, fMs = 0, fZone = Offset False 5 30\<rparr>"
  have T: "CHR ''T'' \<in> set ?s" by simp
  have Z: "\<not> endsWith ?s CHR ''Z''" by (simp add: endsWith_def)
  have p: "parseDateTimeString ?s = Some ?f" by code_simp
  have b: "validFields ?f" by code_simp
  have z: "fZone ?f = Offset False 5 30" by simp
  have c: "TimeClip (fieldsTime ?f - offsetMs False 5 30) = Some 1705309200000" by code_simp
  have r: "- 8640000000000000 \<le> (1705309200000::int) - 19800000" by simp
  have w: "wallClock istOffset (ValidDate 1705289400000) = Some (MakeDay 2024 0 15, 9, 0)"
    by code_simp
  from parseISTTimestamp_offset_still_shifted [OF T Z p b z c r, of "fixedZoneHost istOffset 0"]
  have "parseISTTimestamp (fixedZoneHost istOffset 0) (Some ?s) = (ValidDate 1705289400000, [])"
    by simp
  with T Z p b c r w show ?thesis by blast
qed

text \<open>
  C3. The \<^verbatim>\<open>catch\<close> branch is never taken. A string the Date constructor cannot parse
  gives \<^verbatim>\<open>Invalid Date\<close>, not the clock's reading, and nothing is warned: so for a string
  in the format with month 13, on every host, and so for \<^verbatim>\<open>invalid-timestamp\<close> on a host
  whose \<^verbatim>\<open>Date.parse\<close> recognises nothing outside the format.
\<close>

theorem parseISTTimestamp_unparseable:
  "parseISTTimestamp e (Some ''2024-13-15T14:30:00+05:30'') = (InvalidDate, [])
   \<and> parseISTTimestamp (fixedZoneHost istOffset t) (Some ''invalid-timestamp'') = (InvalidDate, [])"
proof -
  let ?f = "\<lparr>fYear = 2024, fMonth = 13, fDay = 15, fHasTime = True, fHour = 14,
              fMinute = 30, fSecond = 0, fMs = 0, fZone = Offset False 5 30\<rparr>"
  have p: "parseDateTimeString ''2024-13-15T14:30:00+05:30'' = Some ?f" by code_simp
  have b: "\<not> fieldsInBounds ?f" by code_simp
  have T: "CHR ''T'' \<in> set ''2024-13-15T14:30:00+05:30''" by simp
  have Z: "\<not> endsWith ''2024-13-15T14:30:00+05:30'' CHR ''Z''" by (simp add: endsWith_def)
  have a: "parseISTTimestamp e (Some ''2024-13-15T14:30:00+05:30'') = (InvalidDate, [])"
    unfolding parseISTTimestamp_no_marker [OF T Z] newDateString_def
      DateParse_out_of_bounds [OF p b]
    by (simp add: numSub_def newDateNumber_def)
  have q: "parseDateTimeString ''invalid-timestamp'' = None" by code_simp
  have "parseISTTimestamp (fixedZoneHost istOffset t) (Some ''invalid-timestamp'') = (InvalidDate, [])"
    by (simp add: parseISTTimestamp_def tryBlock_def str_includes_def endsWith_def
        newDateString_def DateParse_def q fixedZoneHost_def)
  with a show ?thesis by simp
qed

section \<open>The grid constants\<close>

text \<open>
  C8. \<^verbatim>\<open>GRID_DIMENSIONS\<close> holds 24 rows and 16 columns, not the 21 rows and 15 columns
  that \<^verbatim>\<open>tests/coordinateUtils.test.ts\<close> asserts.
\<close>

theorem GRID_DIMENSIONS_values:
  "ROWS GRID_DIMENSIONS = 24 \<and> COLS GRID_DIMENSIONS = 16
   \<and> ROWS GRID_DIMENSIONS \<noteq> 21 \<and> COLS GRID_DIMENSIONS \<noteq> 15"
  by (simp add: GRID_DIMENSIONS_def)

section \<open>The cell centres\<close>

lemma latitude_cellCenter:
  "latitude (cellCenter b g x y) = latitude (northwest b) - latStep b g * (of_int y + 0.5)"
  by (simp add: cellCenter_def)

lemma longitude_cellCenter:
  "longitude (cellCenter b g x y) = longitude (northwest b) + lngStep b g * (of_int x + 0.5)"
  by (simp add: cellCenter_def)

lemma scenario_steps:
  "latStep scenarioBoundary scenarioGrid = 0.01" "lngStep scenarioBoundary scenarioGrid = 0.018"
  by (simp_all add: latStep_def lngStep_def scenarioBoundary_def scenarioGrid_def)

text \<open>
  In the literal scenario the formulas have the steps 0.01 and 0.018 and place the last
  cell at (26.785, 75.911).
\<close>

lemma scenario_last_cell:
  "cellCenter scenarioBoundary scenarioGrid 14 20 = \<lparr>latitude = 26.785, longitude = 75.911\<rparr>"
  by (simp add: cellCenter_def scenario_steps) (simp add: scenarioBoundary_def)

text \<open>
  C7. With positive step sizes the latitude of the cell centre strictly decreases as \<open>y\<close>
  increases and its longitude strictly increases as \<open>x\<close> increases, for any two distinct
  indices on the same axis.
\<close>

theorem cellCenter_monotonic:
  assumes "0 < latStep b g" and "0 < lngStep b g"
  shows "(y1 < y2 \<longrightarrow> latitude (cellCenter b g x y2) < latitude (cellCenter b g x y1))
       \<and> (x1 < x2 \<longrightarrow> longitude (cellCenter b g x1 y) < longitude (cellCenter b g x2 y))"
proof (intro conjI impI)
  assume "y1 < y2"
  then have "(of_int y1 :: real) + 0.5 < of_int y2 + 0.5" by simp
  then have "latStep b g * (of_int y1 + 0.5) < latStep b g * (of_int y2 + 0.5)"
    using assms(1) by (rule mult_strict_left_mono)
  then show "latitude (cellCenter b g x y2) < latitude (cellCenter b g x y1)"
    unfolding latitude_cellCenter by simp
next
  assume "x1 < x2"
  then have "(of_int x1 :: real) + 0.5 < of_int x2 + 0.5" by simp
  then have "lngStep b g * (of_int x1 + 0.5) < lngStep b g * (of_int x2 + 0.5)"
    using assms(2) by (rule mult_strict_left_mono)
  then show "longitude (cellCenter b g x1 y) < longitude (cellCenter b g x2 y)"
    unfolding longitude_cellCenter by simp
qed

theorem cellCenter_monotonic_witness:
  "0 < latStep scenarioBoundary scenarioGrid \<and> 0 < lngStep scenarioBoundary scenarioGrid
   \<and> (3::int) < 7
   \<and> latitude (cellCenter scenarioBoundary scenarioGrid 5 7)
       < latitude (cellCenter scenarioBoundary scenarioGrid 5 3)
   \<and> longitude (cellCenter scenarioBoundary scenarioGrid 3 5)
       < longitude (cellCenter scenarioBoundary scenarioGrid 7 5)"
proof -
  have a: "0 < latStep scenarioBoundary scenarioGrid" and b: "0 < lngStep scenarioBoundary scenarioGrid"
    by (simp_all add: scenario_steps)
  have c: "(3::int) < 7" by simp
  from cellCenter_monotonic [OF a b, of 3 7 5 3 7 5] c
  have "latitude (cellCenter scenarioBoundary scenarioGrid 5 7)
          < latitude (cellCenter scenarioBoundary scenarioGrid 5 3)"
    and "longitude (cellCenter scenarioBoundary scenarioGrid 3 5)
          < longitude (cellCenter scenarioBoundary scenarioGrid 7 5)"
    by blast+
  with a b c show ?thesis by blast
qed

end
